theory Spec2Isabelle
  imports Main
begin

section \<open>The newsletter server (server.js)\<close>

text \<open>
  The server is a set of HTTP handlers over two PostgreSQL tables and a mail transporter.
  Each handler is modelled as a function from the request and the database to the response
  and the database after it.

  Two facts about server.js as it stands come before everything else.
  \<^item> The file declares \<open>const pool\<close> twice at the top level (lines 16 and 231). A
    second \<open>const\<close> declaration of a name is a SyntaxError, so the module as shipped does
    not load and no route is registered. The model is of the handlers as they are written,
    that is, of the file with the repeated declaration of lines 230 to 234 taken once.
    Every statement below is a statement about these handlers.
  \<^item> \<open>createTransporter\<close> (line 55) calls \<open>nodemailer.createTransporter\<close>. The nodemailer
    library exports \<open>createTransport\<close> and has no \<open>createTransporter\<close>, so the call
    raises a TypeError. The model has the library as the code meets it.

  What lies outside server.js:
  \<^item> the database engine: a table is the list of its rows in storage order; every
    \<open>pool.query\<close> takes a \<open>fault\<close>, the error the driver may raise in its place
    (connection lost), \<open>None\<close> when the statement reaches the engine; a statement that
    reaches the engine can still fail there (a NULL in a NOT NULL column, text that is not
    an integer), and these failures are part of the model; the sequences of the SERIAL
    columns are taken not to be exhausted;
  \<^item> a transporter's \<open>sendMail\<close>, which acts on an outside world \<open>'w\<close> and returns
    \<open>None\<close> when the message is accepted and the error's message when the call raises;
  \<^item> the clock behind \<open>CURRENT_TIMESTAMP\<close> and the variables of \<open>process.env\<close>.
  Text is held as UTF-8 bytes. Console output is not modelled.
\<close>

subsection \<open>Tables\<close>

text \<open>
  \<open>CREATE TABLE clients\<close> and \<open>CREATE TABLE newsletters\<close>. \<open>name\<close> and \<open>company\<close> may be
  NULL. \<open>subscribed\<close> and \<open>sent_count\<close> are only ever written with a value by the server.
  Each table has the sequence of its SERIAL column.
\<close>

record client =
  c_id :: int
  email :: string
  name :: "string option"
  company :: "string option"
  subscribed :: bool
  created_at :: nat

record newsletter =
  n_id :: int
  subject :: string
  content :: string
  sent_count :: int
  n_created_at :: nat

record db =
  clients :: "client list"
  newsletters :: "newsletter list"
  clients_id_seq :: int
  newsletters_id_seq :: int

definition empty_db :: db where
  "empty_db = \<lparr>clients = [], newsletters = [], clients_id_seq = 1, newsletters_id_seq = 1\<rparr>"

subsection \<open>Responses\<close>

datatype body =
    ClientAdded string client
  | NewsletterCreated string "newsletter option"
  | SendReport string nat nat bool
  | MessageOnly string
  | ErrorBody string

type_synonym response = "nat \<times> body"

definition res_json :: "body \<Rightarrow> response" where
  "res_json b = (200, b)"

definition res_status_json :: "nat \<Rightarrow> body \<Rightarrow> response" where
  "res_status_json s b = (s, b)"

subsection \<open>Text\<close>

definition c_acute :: string where "c_acute = [CHR 0xC4, CHR 0x87]"
definition d_stroke :: string where "d_stroke = [CHR 0xC4, CHR 0x91]"
definition s_caron :: string where "s_caron = [CHR 0xC5, CHR 0xA1]"
definition z_caron :: string where "z_caron = [CHR 0xC5, CHR 0xBE]"
definition envelope_sign :: string where "envelope_sign = [CHR 0xF0, CHR 0x9F, CHR 0x93, CHR 0xA7]"
definition check_mark :: string where "check_mark = [CHR 0xE2, CHR 0x9C, CHR 0x85]"

text \<open>A number inside a template literal: its decimal digits.\<close>

fun show_nat :: "nat \<Rightarrow> string" where
  "show_nat n =
     (if n < 10 then [''0123456789'' ! n]
      else show_nat (n div 10) @ [''0123456789'' ! (n mod 10)])"

declare show_nat.simps [simp del]

text \<open>A value that may be \<open>undefined\<close> inside a template literal.\<close>

definition js_string :: "string option \<Rightarrow> string" where
  "js_string v = (case v of None \<Rightarrow> ''undefined'' | Some s \<Rightarrow> s)"

text \<open>\<open>!v\<close> for a value that is a string or \<open>undefined\<close>: the empty string is falsy too.\<close>

definition js_not :: "string option \<Rightarrow> bool" where
  "js_not v = (case v of None \<Rightarrow> True | Some s \<Rightarrow> s = [])"

text \<open>\<open>content.replace(/\n/g, '<br>')\<close>\<close>

definition replace_newlines :: "string \<Rightarrow> string" where
  "replace_newlines s = concat (map (\<lambda>c. if c = CHR 0x0A then ''<br>'' else [c]) s)"

subsection \<open>Statements\<close>

type_synonym fault = "string option"

definition not_null_msg :: "string \<Rightarrow> string \<Rightarrow> string" where
  \<open>not_null_msg col rel =
     ''null value in column "'' @ col @ ''" of relation "'' @ rel @ ''" violates not-null constraint''\<close>

text \<open>
  \<open>INSERT INTO clients (email, name, company) VALUES ($1, $2, $3)
   ON CONFLICT (email) DO NOTHING RETURNING *\<close>.
  An \<open>undefined\<close> parameter is sent as NULL. The id is drawn from the sequence before the
  row is checked, so the sequence advances also when no row is stored.
\<close>

definition insert_client ::
  "fault \<Rightarrow> nat \<Rightarrow> string option \<Rightarrow> string option \<Rightarrow> string option \<Rightarrow> db
     \<Rightarrow> (string + client list) \<times> db" where
  "insert_client f now e n c d =
     (case f of
        Some msg \<Rightarrow> (Inl msg, d)
      | None \<Rightarrow>
          (let new_id = clients_id_seq d;
               d1 = d\<lparr>clients_id_seq := new_id + 1\<rparr>
           in (case e of
                 None \<Rightarrow> (Inl (not_null_msg ''email'' ''clients''), d1)
               | Some em \<Rightarrow>
                   if em \<in> set (map email (clients d)) then (Inr [], d1)
                   else
                     (let row = \<lparr>c_id = new_id, email = em, name = n, company = c,
                                 subscribed = True, created_at = now\<rparr>
                      in (Inr [row], d1\<lparr>clients := clients d @ [row]\<rparr>)))))"

text \<open>\<open>INSERT INTO newsletters (subject, content) VALUES ($1, $2) RETURNING *\<close>\<close>

definition insert_newsletter ::
  "fault \<Rightarrow> nat \<Rightarrow> string option \<Rightarrow> string option \<Rightarrow> db \<Rightarrow> (string + newsletter list) \<times> db" where
  "insert_newsletter f now s c d =
     (case f of
        Some msg \<Rightarrow> (Inl msg, d)
      | None \<Rightarrow>
          (let new_id = newsletters_id_seq d;
               d1 = d\<lparr>newsletters_id_seq := new_id + 1\<rparr>
           in (case s of
                 None \<Rightarrow> (Inl (not_null_msg ''subject'' ''newsletters''), d1)
               | Some sj \<Rightarrow>
                   (case c of
                      None \<Rightarrow> (Inl (not_null_msg ''content'' ''newsletters''), d1)
                    | Some ct \<Rightarrow>
                        (let row = \<lparr>n_id = new_id, subject = sj, content = ct,
                                    sent_count = 0, n_created_at = now\<rparr>
                         in (Inr [row], d1\<lparr>newsletters := newsletters d @ [row]\<rparr>))))))"

text \<open>
  A text parameter compared with an integer column. The route parameter \<open>:id\<close> is text
  and is passed to the statement as it is; the engine reads it as a 32-bit integer: white
  space, an optional sign, decimal digits, white space. Any other text raises
  \<open>invalid input syntax\<close> and a number outside the 32-bit range raises \<open>out of range\<close>.
  (Engines from version 16 on also read the prefixes \<open>0x\<close>, \<open>0o\<close>, \<open>0b\<close> and
  underscores between digits; these spellings are not modelled and count as other text.)
\<close>

definition is_space :: "char \<Rightarrow> bool" where
  "is_space c = (c \<in> set [CHR '' '', CHR 0x09, CHR 0x0A, CHR 0x0B, CHR 0x0C, CHR 0x0D])"

definition is_digit :: "char \<Rightarrow> bool" where
  "is_digit c = (c \<in> set ''0123456789'')"

definition digit_value :: "char \<Rightarrow> nat" where
  "digit_value c = length (takeWhile (\<lambda>x. x \<noteq> c) ''0123456789'')"

definition digits_value :: "string \<Rightarrow> nat" where
  "digits_value ds = foldl (\<lambda>v c. 10 * v + digit_value c) 0 ds"

definition invalid_integer_msg :: "string \<Rightarrow> string" where
  \<open>invalid_integer_msg s = ''invalid input syntax for type integer: "'' @ s @ ''"''\<close>

definition integer_range_msg :: "string \<Rightarrow> string" where
  \<open>integer_range_msg s = ''value "'' @ s @ ''" is out of range for type integer''\<close>

definition strip_sign :: "string \<Rightarrow> bool \<times> string" where
  "strip_sign t =
     (case t of
        [] \<Rightarrow> (False, [])
      | c # r \<Rightarrow>
          if c = CHR ''-'' then (True, r) else if c = CHR ''+'' then (False, r) else (False, t))"

definition int4_in :: "string \<Rightarrow> string + int" where
  "int4_in s =
     (case strip_sign (dropWhile is_space s) of
        (neg, u) \<Rightarrow>
          (let ds = takeWhile is_digit u;
               rest = dropWhile is_digit u
           in if ds = [] \<or> dropWhile is_space rest \<noteq> [] then Inl (invalid_integer_msg s)
              else
                (let v = (if neg then - int (digits_value ds) else int (digits_value ds))
                 in if v < - 2147483648 \<or> 2147483647 < v then Inl (integer_range_msg s)
                    else Inr v)))"

text \<open>\<open>SELECT * FROM newsletters WHERE id = $1\<close>\<close>

definition select_newsletter :: "fault \<Rightarrow> string \<Rightarrow> db \<Rightarrow> string + newsletter list" where
  "select_newsletter f newsletterId d =
     (case f of
        Some msg \<Rightarrow> Inl msg
      | None \<Rightarrow>
          (case int4_in newsletterId of
             Inl msg \<Rightarrow> Inl msg
           | Inr i \<Rightarrow> Inr (filter (\<lambda>n. n_id n = i) (newsletters d))))"

text \<open>\<open>SELECT * FROM clients WHERE subscribed = true\<close>\<close>

definition select_subscribed :: "fault \<Rightarrow> db \<Rightarrow> string + client list" where
  "select_subscribed f d =
     (case f of
        Some msg \<Rightarrow> Inl msg
      | None \<Rightarrow> Inr (filter subscribed (clients d)))"

text \<open>\<open>UPDATE newsletters SET sent_count = $1 WHERE id = $2\<close>\<close>

definition update_sent_count :: "fault \<Rightarrow> nat \<Rightarrow> string \<Rightarrow> db \<Rightarrow> string option \<times> db" where
  "update_sent_count f k newsletterId d =
     (case f of
        Some msg \<Rightarrow> (Some msg, d)
      | None \<Rightarrow>
          (case int4_in newsletterId of
             Inl msg \<Rightarrow> (Some msg, d)
           | Inr i \<Rightarrow>
               (None, d\<lparr>newsletters :=
                          map (\<lambda>n. if n_id n = i then n\<lparr>sent_count := int k\<rparr> else n)
                            (newsletters d)\<rparr>)))"

text \<open>
  \<open>UPDATE clients SET subscribed = false WHERE email = $1\<close>.
  With a NULL parameter the comparison holds for no row.
\<close>

definition update_unsubscribe :: "fault \<Rightarrow> string option \<Rightarrow> db \<Rightarrow> string option \<times> db" where
  "update_unsubscribe f e d =
     (case f of
        Some msg \<Rightarrow> (Some msg, d)
      | None \<Rightarrow>
          (None, d\<lparr>clients :=
                     map (\<lambda>c. if Some (email c) = e then c\<lparr>subscribed := False\<rparr> else c)
                       (clients d)\<rparr>))"

subsection \<open>POST /api/clients\<close>

definition post_clients ::
  "fault \<Rightarrow> nat \<Rightarrow> string option \<Rightarrow> string option \<Rightarrow> string option \<Rightarrow> db \<Rightarrow> response \<times> db" where
  "post_clients f now e n c d =
     (case insert_client f now e n c d of
        (Inl msg, d') \<Rightarrow> (res_status_json 500 (ErrorBody msg), d')
      | (Inr rows, d') \<Rightarrow>
          (case rows of
             [] \<Rightarrow> (res_status_json 409 (ErrorBody (''Email ve'' @ c_acute @ '' postoji'')), d')
           | row # _ \<Rightarrow>
               (res_json (ClientAdded (''Klijent uspje'' @ s_caron @ ''no dodan'') row), d')))"

subsection \<open>POST /api/newsletters\<close>

definition post_newsletters ::
  "fault \<Rightarrow> nat \<Rightarrow> string option \<Rightarrow> string option \<Rightarrow> db \<Rightarrow> response \<times> db" where
  "post_newsletters f now s c d =
     (case insert_newsletter f now s c d of
        (Inl msg, d') \<Rightarrow> (res_status_json 500 (ErrorBody msg), d')
      | (Inr rows, d') \<Rightarrow>
          (res_json (NewsletterCreated ''Newsletter kreiran''
                       (case rows of [] \<Rightarrow> None | row # _ \<Rightarrow> Some row)), d'))"

subsection \<open>POST /api/unsubscribe\<close>

definition post_unsubscribe :: "fault \<Rightarrow> string option \<Rightarrow> db \<Rightarrow> response \<times> db" where
  "post_unsubscribe f e d =
     (case update_unsubscribe f e d of
        (Some msg, d') \<Rightarrow> (res_status_json 500 (ErrorBody msg), d')
      | (None, d') \<Rightarrow>
          (res_json (MessageOnly (''Pretplata uspje'' @ s_caron @ ''no otkazana'')), d'))"

subsection \<open>Mail\<close>

record mail =
  mail_from :: "string option"
  mail_to :: string
  mail_subject :: string
  mail_html :: string

type_synonym 'w transporter = "mail \<Rightarrow> 'w \<Rightarrow> string option \<times> 'w"

record transport_options =
  service :: string
  auth_user :: "string option"
  auth_pass :: "string option"

text \<open>
  \<open>nodemailer.createTransporter\<close>: the library has no property of this name (its function
  is \<open>createTransport\<close>), so the value read is \<open>undefined\<close> and calling it raises a
  TypeError, whatever the options.
\<close>

definition not_a_function_msg :: string where
  "not_a_function_msg = ''nodemailer.createTransporter is not a function''"

definition nodemailer_createTransporter :: "transport_options \<Rightarrow> string + 'w transporter" where
  "nodemailer_createTransporter opts = Inl not_a_function_msg"

record env =
  EMAIL_USER :: "string option"
  EMAIL_PASS :: "string option"

definition createTransporter :: "env \<Rightarrow> string + 'w transporter" where
  "createTransporter ev =
     nodemailer_createTransporter
       \<lparr>service = ''gmail'', auth_user = EMAIL_USER ev, auth_pass = EMAIL_PASS ev\<rparr>"

text \<open>The template literal passed as \<open>html\<close>, with its line breaks and indentation.\<close>

definition html_body :: "string option \<Rightarrow> newsletter \<Rightarrow> client \<Rightarrow> string" where
  \<open>html_body origin newsletter client =
     ''\<newline>              <div style="font-family: Arial, sans-serif; max-width: 600px; margin: 0 auto;">\<newline>                <h2>''
     @ subject newsletter
     @ ''</h2>\<newline>                <div>''
     @ replace_newlines (content newsletter)
     @ ''</div>\<newline>                <hr>\<newline>                <p style="color: #666; font-size: 12px;">\<newline>                  Po'' @ s_caron @ ''aljeno putem Newsletter App<br>\<newline>                  <a href="''
     @ js_string origin
     @ ''/unsubscribe?email=''
     @ email client
     @ ''">Otka'' @ z_caron @ ''i pretplatu</a>\<newline>                </p>\<newline>              </div>\<newline>            ''\<close>

definition message_for :: "env \<Rightarrow> string option \<Rightarrow> newsletter \<Rightarrow> client \<Rightarrow> mail" where
  "message_for ev origin newsletter client =
     \<lparr>mail_from = EMAIL_USER ev, mail_to = email client, mail_subject = subject newsletter,
      mail_html = html_body origin newsletter client\<rparr>"

subsection \<open>POST /api/newsletters/:id/send\<close>

text \<open>\<open>clients[i]\<close>: \<open>undefined\<close> past the end of the array.\<close>

definition at_index :: "'a list \<Rightarrow> nat \<Rightarrow> 'a option" where
  "at_index xs i = (if i < length xs then Some (xs ! i) else None)"

definition undefined_email_msg :: string where
  "undefined_email_msg = ''Cannot read properties of undefined (reading 'email')''"

type_synonym delivery = "mail \<times> string option"

text \<open>
  The loop \<open>for (let i = 0; i < maxEmails; i++)\<close>, from index \<open>i\<close> on. It carries
  \<open>sentCount\<close>, the outside world and the list of the \<open>sendMail\<close> calls made so far, each
  with its outcome. An error raised by \<open>sendMail\<close> is caught inside the loop. When
  \<open>clients[i]\<close> is \<open>undefined\<close>, reading \<open>client.email\<close> raises a TypeError inside the
  \<open>try\<close> block, the \<open>catch\<close> block reads \<open>client.email\<close> again, and that second TypeError
  leaves the loop: the result is \<open>Inl\<close> of its message.
\<close>

function send_loop ::
  "'w transporter \<Rightarrow> env \<Rightarrow> string option \<Rightarrow> newsletter \<Rightarrow> client list \<Rightarrow> bool \<Rightarrow> nat
     \<Rightarrow> nat \<Rightarrow> nat \<Rightarrow> 'w \<Rightarrow> delivery list \<Rightarrow> (string + nat) \<times> 'w \<times> delivery list" where
  "send_loop transporter ev origin newsletter clientRows testMode maxEmails i sentCount w calls =
     (if i < maxEmails then
        (case at_index clientRows i of
           None \<Rightarrow> (Inl undefined_email_msg, w, calls)
         | Some client \<Rightarrow>
             if \<not> testMode then
               (let m = message_for ev origin newsletter client
                in case transporter m w of
                     (None, w') \<Rightarrow>
                       send_loop transporter ev origin newsletter clientRows testMode maxEmails
                         (i + 1) (sentCount + 1) w' (calls @ [(m, None)])
                   | (Some err, w') \<Rightarrow>
                       send_loop transporter ev origin newsletter clientRows testMode maxEmails
                         (i + 1) sentCount w' (calls @ [(m, Some err)]))
             else
               send_loop transporter ev origin newsletter clientRows testMode maxEmails
                 (i + 1) (sentCount + 1) w calls)
      else (Inr sentCount, w, calls))"
  by pat_completeness auto
termination
  by (relation "measure (\<lambda>(t, ev, origin, newsletter, clientRows, testMode, maxEmails, i, rest).
                   maxEmails - i)") auto

declare send_loop.simps [simp del]

record 'w send_result =
  response :: response
  db_after :: db
  world_after :: 'w
  deliveries :: "delivery list"

definition send_message :: "bool \<Rightarrow> nat \<Rightarrow> string" where
  "send_message testMode sentCount =
     (if testMode
      then envelope_sign @ '' TEST MODE: Newsletter spreman za slanje na '' @ show_nat sentCount
             @ '' emailova (email nije konfiguriran)''
      else check_mark @ '' Newsletter poslan na '' @ show_nat sentCount @ '' email adresa'')"

text \<open>
  The handler. \<open>faults k\<close> is the fault of the request's query number \<open>k\<close>: 0 the
  newsletter, 1 the subscribed clients, 2 the update of \<open>sent_count\<close>. Every error that
  leaves the \<open>try\<close> block is answered with status 500 and the error's message.
  \<open>createTransporter()\<close> is called after the two queries and before \<open>testMode\<close> is
  computed (line 154).
\<close>

definition post_send ::
  "env \<Rightarrow> (nat \<Rightarrow> fault) \<Rightarrow> string option \<Rightarrow> string \<Rightarrow> db \<Rightarrow> 'w \<Rightarrow> 'w send_result" where
  "post_send ev faults origin newsletterId d w =
     (case select_newsletter (faults 0) newsletterId d of
        Inl msg \<Rightarrow>
          \<lparr>response = res_status_json 500 (ErrorBody msg), db_after = d, world_after = w,
           deliveries = []\<rparr>
      | Inr [] \<Rightarrow>
          \<lparr>response = res_status_json 404 (ErrorBody (''Newsletter nije prona'' @ d_stroke @ ''en'')),
           db_after = d, world_after = w, deliveries = []\<rparr>
      | Inr (newsletter # _) \<Rightarrow>
          (case select_subscribed (faults 1) d of
             Inl msg \<Rightarrow>
               \<lparr>response = res_status_json 500 (ErrorBody msg), db_after = d, world_after = w,
                deliveries = []\<rparr>
           | Inr clientRows \<Rightarrow>
               (case createTransporter ev of
                  Inl msg \<Rightarrow>
                    \<lparr>response = res_status_json 500 (ErrorBody msg), db_after = d,
                     world_after = w, deliveries = []\<rparr>
                | Inr transporter \<Rightarrow>
                    (let testMode = js_not (EMAIL_USER ev);
                         maxEmails = (if testMode then 3 else length clientRows)
                     in case send_loop transporter ev origin newsletter clientRows testMode
                               maxEmails 0 0 w [] of
                          (Inl msg, w', calls) \<Rightarrow>
                            \<lparr>response = res_status_json 500 (ErrorBody msg), db_after = d,
                             world_after = w', deliveries = calls\<rparr>
                        | (Inr sentCount, w', calls) \<Rightarrow>
                            (case update_sent_count (faults 2) sentCount newsletterId d of
                               (Some msg, d') \<Rightarrow>
                                 \<lparr>response = res_status_json 500 (ErrorBody msg),
                                  db_after = d', world_after = w', deliveries = calls\<rparr>
                             | (None, d') \<Rightarrow>
                                 \<lparr>response =
                                    res_json (SendReport (send_message testMode sentCount)
                                      sentCount (length clientRows) testMode),
                                  db_after = d', world_after = w', deliveries = calls\<rparr>)))))"

subsection \<open>Notions used in the statements\<close>

text \<open>The invariant of the clients table: no two rows with the same email.\<close>

definition emails_unique :: "db \<Rightarrow> bool" where
  "emails_unique d = distinct (map email (clients d))"

text \<open>The rows of a given email.\<close>

definition rows_with_email :: "string \<Rightarrow> db \<Rightarrow> client list" where
  "rows_with_email e d = filter (\<lambda>c. email c = e) (clients d)"

text \<open>A series of requests to POST /api/clients, all with the email \<open>e\<close>; each has its own
  fault, clock, name and company.\<close>

fun create_attempts ::
  "(fault \<times> nat \<times> string option \<times> string option) list \<Rightarrow> string \<Rightarrow> db \<Rightarrow> db" where
  "create_attempts [] e d = d"
| "create_attempts ((f, now, n, c) # rest) e d =
     create_attempts rest e (snd (post_clients f now (Some e) n c d))"

text \<open>The row that a successful insert of a client stores and returns.\<close>

definition new_client :: "db \<Rightarrow> nat \<Rightarrow> string \<Rightarrow> string option \<Rightarrow> string option \<Rightarrow> client" where
  "new_client d now e n c =
     \<lparr>c_id = clients_id_seq d, email = e, name = n, company = c, subscribed = True,
      created_at = now\<rparr>"

subsection \<open>Sample data\<close>

definition sample_client :: "int \<Rightarrow> string \<Rightarrow> bool \<Rightarrow> client" where
  "sample_client i e s =
     \<lparr>c_id = i, email = e, name = None, company = None, subscribed = s, created_at = 0\<rparr>"

definition sample_newsletter :: newsletter where
  "sample_newsletter =
     \<lparr>n_id = 1, subject = ''News'', content = ''Hello\<newline>World'', sent_count = 0,
      n_created_at = 0\<rparr>"

definition db_five :: db where
  "db_five =
     \<lparr>clients = [sample_client 1 ''a@x.org'' True, sample_client 2 ''b@x.org'' True,
                 sample_client 3 ''c@x.org'' False, sample_client 4 ''d@x.org'' True,
                 sample_client 5 ''e@x.org'' True, sample_client 6 ''f@x.org'' True],
      newsletters = [sample_newsletter], clients_id_seq = 7, newsletters_id_seq = 2\<rparr>"

definition db_two :: db where
  "db_two =
     \<lparr>clients = [sample_client 1 ''a@x.org'' True, sample_client 2 ''b@x.org'' True,
                 sample_client 3 ''c@x.org'' False],
      newsletters = [sample_newsletter], clients_id_seq = 4, newsletters_id_seq = 2\<rparr>"

definition no_credentials :: env where
  "no_credentials = \<lparr>EMAIL_USER = None, EMAIL_PASS = None\<rparr>"

definition with_credentials :: env where
  "with_credentials = \<lparr>EMAIL_USER = Some ''news@x.org'', EMAIL_PASS = Some ''secret''\<rparr>"

definition no_faults :: "nat \<Rightarrow> fault" where
  "no_faults k = None"

section \<open>Properties\<close>

subsection \<open>Text parameters and sample rows\<close>

lemma int4_in_samples:
  "int4_in ''1'' = Inr 1"
  "int4_in ''9'' = Inr 9"
  "int4_in '' -12 '' = Inr (- 12)"
  "int4_in ''abc'' = Inl (invalid_integer_msg ''abc'')"
  "int4_in ''1x'' = Inl (invalid_integer_msg ''1x'')"
  "int4_in ''99999999999'' = Inl (integer_range_msg ''99999999999'')"
  by (simp_all add: int4_in_def strip_sign_def is_space_def is_digit_def digits_value_def
        digit_value_def)

lemma sample_newsletter_rows:
  "filter (\<lambda>n. n_id n = 1) (newsletters db_five) = [sample_newsletter]"
  "filter (\<lambda>n. n_id n = 1) (newsletters db_two) = [sample_newsletter]"
  "filter (\<lambda>n. n_id n = 9) (newsletters db_two) = []"
  by (simp_all add: db_five_def db_two_def sample_newsletter_def)

lemma no_faults_none: "no_faults k = None"
  by (simp add: no_faults_def)

subsection \<open>The outcomes of a send\<close>

text \<open>
  The handler leaves in one of five ways: the first query raises, the id is not an integer,
  no row has the id, the second query raises, or \<open>createTransporter\<close> raises. Nothing after
  line 154 is reached.
\<close>

lemma post_send_fetch_fault:
  "faults 0 = Some msg \<Longrightarrow>
   post_send ev faults origin newsletterId d w =
     \<lparr>response = (500, ErrorBody msg), db_after = d, world_after = w, deliveries = []\<rparr>"
  by (simp add: post_send_def select_newsletter_def res_status_json_def)

lemma post_send_bad_id:
  "faults 0 = None \<Longrightarrow> int4_in newsletterId = Inl msg \<Longrightarrow>
   post_send ev faults origin newsletterId d w =
     \<lparr>response = (500, ErrorBody msg), db_after = d, world_after = w, deliveries = []\<rparr>"
  by (simp add: post_send_def select_newsletter_def res_status_json_def)

lemma post_send_not_found:
  "faults 0 = None \<Longrightarrow> int4_in newsletterId = Inr i \<Longrightarrow>
   filter (\<lambda>n. n_id n = i) (newsletters d) = [] \<Longrightarrow>
   post_send ev faults origin newsletterId d w =
     \<lparr>response = (404, ErrorBody (''Newsletter nije prona'' @ d_stroke @ ''en'')),
      db_after = d, world_after = w, deliveries = []\<rparr>"
  by (simp add: post_send_def select_newsletter_def res_status_json_def)

lemma post_send_clients_fault:
  "faults 0 = None \<Longrightarrow> int4_in newsletterId = Inr i \<Longrightarrow>
   filter (\<lambda>n. n_id n = i) (newsletters d) = nl # rest \<Longrightarrow> faults 1 = Some msg \<Longrightarrow>
   post_send ev faults origin newsletterId d w =
     \<lparr>response = (500, ErrorBody msg), db_after = d, world_after = w, deliveries = []\<rparr>"
  by (simp add: post_send_def select_newsletter_def select_subscribed_def res_status_json_def)

lemma post_send_no_transporter:
  "faults 0 = None \<Longrightarrow> int4_in newsletterId = Inr i \<Longrightarrow>
   filter (\<lambda>n. n_id n = i) (newsletters d) = nl # rest \<Longrightarrow> faults 1 = None \<Longrightarrow>
   post_send ev faults origin newsletterId d w =
     \<lparr>response = (500, ErrorBody not_a_function_msg), db_after = d, world_after = w,
      deliveries = []\<rparr>"
  by (simp add: post_send_def select_newsletter_def select_subscribed_def res_status_json_def
        createTransporter_def nodemailer_createTransporter_def)

lemma post_send_cases:
  "\<exists>st msg. (st = 404 \<or> st = 500) \<and>
     post_send ev faults origin newsletterId d w =
       \<lparr>response = (st, ErrorBody msg), db_after = d, world_after = w, deliveries = []\<rparr>"
proof (cases "faults 0")
  case (Some msg)
  then show ?thesis by (simp add: post_send_fetch_fault)
next
  case None
  note f0 = this
  show ?thesis
  proof (cases "int4_in newsletterId")
    case (Inl msg)
    with f0 show ?thesis by (simp add: post_send_bad_id)
  next
    case (Inr i)
    note id = this
    show ?thesis
    proof (cases "filter (\<lambda>n. n_id n = i) (newsletters d)")
      case Nil
      with f0 id show ?thesis by (simp add: post_send_not_found)
    next
      case (Cons nl rest)
      note fl = this
      show ?thesis
      proof (cases "faults 1")
        case None
        with f0 id fl show ?thesis by (simp add: post_send_no_transporter)
      next
        case (Some msg)
        with f0 id fl show ?thesis by (simp add: post_send_clients_fault)
      qed
    qed
  qed
qed

lemma found_filter:
  assumes "\<exists>n \<in> set (newsletters d). n_id n = i"
  obtains nl rest where "filter (\<lambda>n. n_id n = i) (newsletters d) = nl # rest"
proof -
  from assms have "filter (\<lambda>n. n_id n = i) (newsletters d) \<noteq> []"
    by (simp add: filter_empty_conv)
  then obtain nl rest where eq: "filter (\<lambda>n. n_id n = i) (newsletters d) = nl # rest"
    by (cases "filter (\<lambda>n. n_id n = i) (newsletters d)") simp_all
  show ?thesis by (rule that [OF eq])
qed

subsection \<open>The loop and the message, were they reached\<close>

text \<open>
  Behind the call of line 154 lies a second defect. In test mode the bound of the loop is
  the constant 3 and not the smaller of 3 and the number of subscribed clients: with fewer
  than three rows \<open>clients[i]\<close> is \<open>undefined\<close> at some index below 3 and the TypeError
  leaves the loop, for every transporter. With three rows or more the loop counts 3 and
  calls \<open>sendMail\<close> for none.
\<close>

lemma send_loop_test_mode:
  "send_loop t ev origin nl cs True m i k w calls =
     (if m \<le> length cs \<or> m \<le> i then (Inr (k + (m - i)), w, calls)
      else (Inl undefined_email_msg, w, calls))"
proof (induction "m - i" arbitrary: i k)
  case 0
  then show ?case by (simp add: send_loop.simps)
next
  case (Suc x)
  then have lt: "i < m" and x: "x = m - (i + 1)" by simp_all
  show ?case
  proof (cases "i < length cs")
    case True
    with lt Suc.hyps(1) [OF x, of "k + 1"] show ?thesis
      by (subst send_loop.simps) (auto simp: at_index_def)
  next
    case False
    with lt show ?thesis
      by (subst send_loop.simps) (simp add: at_index_def)
  qed
qed

lemma test_mode_loop_bound:
  "length cs < 3 \<Longrightarrow>
   send_loop t ev origin nl cs True 3 0 0 w [] = (Inl undefined_email_msg, w, [])"
  "3 \<le> length cs \<Longrightarrow> send_loop t ev origin nl cs True 3 0 0 w [] = (Inr 3, w, [])"
  by (simp_all add: send_loop_test_mode)

text \<open>
  The template of lines 169 to 179 has the content with every line feed replaced by
  \<open><br>\<close> and every other character kept.
\<close>

lemma replace_newlines_append:
  "replace_newlines (a @ b) = replace_newlines a @ replace_newlines b"
  by (simp add: replace_newlines_def)

lemma replace_newlines_props:
  "CHR 0x0A \<notin> set (replace_newlines s)"
  "replace_newlines (a @ [CHR 0x0A] @ b) = replace_newlines a @ ''<br>'' @ replace_newlines b"
  "CHR 0x0A \<notin> set a \<Longrightarrow> replace_newlines a = a"
proof -
  show "CHR 0x0A \<notin> set (replace_newlines s)"
    by (induction s) (simp_all add: replace_newlines_def)
  show "replace_newlines (a @ [CHR 0x0A] @ b) = replace_newlines a @ ''<br>'' @ replace_newlines b"
    by (simp add: replace_newlines_def)
  show "CHR 0x0A \<notin> set a \<Longrightarrow> replace_newlines a = a"
    by (induction a) (auto simp: replace_newlines_def)
qed

lemma between_parts: "\<exists>pre post. a @ s @ b @ x @ r = pre @ x @ post"
  by (intro exI [of _ "a @ s @ b"] exI [of _ r]) simp

lemma html_body_line_breaks:
  "\<exists>pre post. html_body origin nl c = pre @ replace_newlines (content nl) @ post"
  unfolding html_body_def by (rule between_parts)

subsection \<open>Sending in test mode\<close>

text \<open>
  Claim C1. In test mode the send operation is to process min(3, number of subscribed
  clients) recipients, call no delivery, report that count with the full number of
  subscribed clients and \<open>testMode = true\<close>, and store the count in \<open>sent_count\<close>; with five
  subscribed clients: \<open>sent = 3, total = 5, testMode = true\<close> and \<open>sent_count = 3\<close>.
  The handler does not do so: with five subscribed clients, an existing newsletter and no
  \<open>EMAIL_USER\<close>, \<open>createTransporter()\<close> raises, the response is status 500 with the
  TypeError's message and \<open>sent_count\<close> is not written.
\<close>

theorem test_mode_five_subscribers:
  "post_send no_credentials no_faults None ''1'' db_five (0::nat) =
     \<lparr>response = (500, ErrorBody not_a_function_msg), db_after = db_five, world_after = 0,
      deliveries = []\<rparr>"
  by (rule post_send_no_transporter
        [OF no_faults_none int4_in_samples(1) sample_newsletter_rows(1) no_faults_none])

subsection \<open>Sending in live mode\<close>

text \<open>
  Claim C2. In live mode the send operation is to attempt a delivery to every subscribed
  client, swallow the failure of one delivery, and report the number of deliveries that did
  not raise together with the number of subscribed clients; with two subscribed clients
  and both deliveries accepted: \<open>sent = 2, total = 2, testMode = false\<close>.
  The handler does not do so: with two subscribed clients, an existing newsletter and
  \<open>EMAIL_USER\<close> set, \<open>createTransporter()\<close> raises, no delivery is attempted and the
  response is status 500.
\<close>

theorem live_mode_two_subscribers:
  "post_send with_credentials no_faults None ''1'' db_two (0::nat) =
     \<lparr>response = (500, ErrorBody not_a_function_msg), db_after = db_two, world_after = 0,
      deliveries = []\<rparr>"
  by (rule post_send_no_transporter
        [OF no_faults_none int4_in_samples(1) sample_newsletter_rows(2) no_faults_none])

subsection \<open>A newsletter that is not found, and queries that fail\<close>

text \<open>
  Claim C5, as stated: for every id that matches no newsletter row the send operation
  answers 404 and leaves the database unchanged. The id is the text of the route
  parameter. The text \<open>abc\<close> matches no row, and the answer is 500 with the engine's
  message, not 404.
\<close>

theorem malformed_id_counterexample:
  "int4_in ''abc'' = Inl (invalid_integer_msg ''abc'')
   \<and> post_send no_credentials no_faults None ''abc'' db_two (0::nat) =
       \<lparr>response = (500, ErrorBody (invalid_integer_msg ''abc'')), db_after = db_two,
        world_after = 0, deliveries = []\<rparr>"
  using post_send_bad_id
    [OF no_faults_none int4_in_samples(4), where ev = no_credentials and origin = None
       and d = db_two and w = "0::nat"]
  by (simp add: int4_in_samples)

text \<open>
  Claim C5, amended. For every id that reads as a 32-bit integer and matches no newsletter
  row, the send operation answers 404; for an id that does not read as a 32-bit integer it
  answers 500 with the engine's message; when the query for the newsletter or the query
  for the subscribed clients raises, it answers 500 with the error's message. In each of
  these cases the database is unchanged and no delivery is attempted.
\<close>

theorem send_aborts_before_effects:
  "let r = post_send ev faults origin newsletterId d w in
     (\<forall>i. faults 0 = None \<and> int4_in newsletterId = Inr i
          \<and> (\<forall>n \<in> set (newsletters d). n_id n \<noteq> i) \<longrightarrow>
        fst (response r) = 404 \<and> db_after r = d \<and> deliveries r = [] \<and> world_after r = w)
   \<and> (\<forall>msg. faults 0 = None \<and> int4_in newsletterId = Inl msg \<longrightarrow>
        response r = (500, ErrorBody msg) \<and> db_after r = d \<and> deliveries r = []
        \<and> world_after r = w)
   \<and> (\<forall>msg. faults 0 = Some msg \<longrightarrow>
        response r = (500, ErrorBody msg) \<and> db_after r = d \<and> deliveries r = []
        \<and> world_after r = w)
   \<and> (\<forall>i msg. faults 0 = None \<and> int4_in newsletterId = Inr i
          \<and> (\<exists>n \<in> set (newsletters d). n_id n = i) \<and> faults 1 = Some msg \<longrightarrow>
        response r = (500, ErrorBody msg) \<and> db_after r = d \<and> deliveries r = []
        \<and> world_after r = w)"
proof -
  let ?r = "post_send ev faults origin newsletterId d w"
  have a: "\<forall>i. faults 0 = None \<and> int4_in newsletterId = Inr i
          \<and> (\<forall>n \<in> set (newsletters d). n_id n \<noteq> i) \<longrightarrow>
        fst (response ?r) = 404 \<and> db_after ?r = d \<and> deliveries ?r = [] \<and> world_after ?r = w"
  proof (intro allI impI)
    fix i
    assume h: "faults 0 = None \<and> int4_in newsletterId = Inr i
          \<and> (\<forall>n \<in> set (newsletters d). n_id n \<noteq> i)"
    then have "filter (\<lambda>n. n_id n = i) (newsletters d) = []"
      by (simp add: filter_empty_conv)
    with h show "fst (response ?r) = 404 \<and> db_after ?r = d \<and> deliveries ?r = []
        \<and> world_after ?r = w"
      by (simp add: post_send_not_found)
  qed
  have b: "\<forall>msg. faults 0 = None \<and> int4_in newsletterId = Inl msg \<longrightarrow>
        response ?r = (500, ErrorBody msg) \<and> db_after ?r = d \<and> deliveries ?r = []
        \<and> world_after ?r = w"
    by (simp add: post_send_bad_id)
  have c: "\<forall>msg. faults 0 = Some msg \<longrightarrow>
        response ?r = (500, ErrorBody msg) \<and> db_after ?r = d \<and> deliveries ?r = []
        \<and> world_after ?r = w"
    by (simp add: post_send_fetch_fault)
  have e: "\<forall>i msg. faults 0 = None \<and> int4_in newsletterId = Inr i
          \<and> (\<exists>n \<in> set (newsletters d). n_id n = i) \<and> faults 1 = Some msg \<longrightarrow>
        response ?r = (500, ErrorBody msg) \<and> db_after ?r = d \<and> deliveries ?r = []
        \<and> world_after ?r = w"
  proof (intro allI impI)
    fix i msg
    assume h: "faults 0 = None \<and> int4_in newsletterId = Inr i
          \<and> (\<exists>n \<in> set (newsletters d). n_id n = i) \<and> faults 1 = Some msg"
    then have "\<exists>n \<in> set (newsletters d). n_id n = i" by simp
    then obtain nl rest where "filter (\<lambda>n. n_id n = i) (newsletters d) = nl # rest"
      by (rule found_filter)
    with h show "response ?r = (500, ErrorBody msg) \<and> db_after ?r = d \<and> deliveries ?r = []
        \<and> world_after ?r = w"
      by (simp add: post_send_clients_fault)
  qed
  show ?thesis
    unfolding Let_def by (rule conjI [OF a conjI [OF b conjI [OF c e]]])
qed

theorem send_aborts_before_effects_witness:
  "fst (response (post_send with_credentials no_faults None ''9'' db_two (0::nat))) = 404
   \<and> db_after (post_send with_credentials no_faults None ''9'' db_two (0::nat)) = db_two
   \<and> response (post_send with_credentials no_faults None ''abc'' db_two (0::nat)) =
       (500, ErrorBody (invalid_integer_msg ''abc''))
   \<and> response (post_send with_credentials (no_faults(0 := Some ''Connection terminated''))
         None ''1'' db_two (0::nat)) = (500, ErrorBody ''Connection terminated'')
   \<and> response (post_send with_credentials (no_faults(1 := Some ''Connection terminated''))
         None ''1'' db_two (0::nat)) = (500, ErrorBody ''Connection terminated'')
   \<and> db_after (post_send with_credentials (no_faults(1 := Some ''Connection terminated''))
         None ''1'' db_two (0::nat)) = db_two"
proof -
  have nf: "\<forall>n \<in> set (newsletters db_two). n_id n \<noteq> 9"
    and ex: "\<exists>n \<in> set (newsletters db_two). n_id n = 1"
    by (simp_all add: db_two_def sample_newsletter_def)
  note a = send_aborts_before_effects [of with_credentials no_faults None "''9''" db_two "0::nat"]
  note b = send_aborts_before_effects [of with_credentials no_faults None "''abc''" db_two "0::nat"]
  note c = send_aborts_before_effects
    [of with_credentials "no_faults(0 := Some ''Connection terminated'')" None "''1''" db_two "0::nat"]
  note e = send_aborts_before_effects
    [of with_credentials "no_faults(1 := Some ''Connection terminated'')" None "''1''" db_two "0::nat"]
  from a nf have a': "fst (response (post_send with_credentials no_faults None ''9'' db_two (0::nat))) = 404
     \<and> db_after (post_send with_credentials no_faults None ''9'' db_two (0::nat)) = db_two"
    by (simp add: Let_def no_faults_none int4_in_samples)
  from b have b': "response (post_send with_credentials no_faults None ''abc'' db_two (0::nat)) =
       (500, ErrorBody (invalid_integer_msg ''abc''))"
    by (simp add: Let_def no_faults_none int4_in_samples)
  from c have c': "response (post_send with_credentials (no_faults(0 := Some ''Connection terminated''))
         None ''1'' db_two (0::nat)) = (500, ErrorBody ''Connection terminated'')"
    by (simp add: Let_def)
  from e ex have e': "response (post_send with_credentials (no_faults(1 := Some ''Connection terminated''))
         None ''1'' db_two (0::nat)) = (500, ErrorBody ''Connection terminated'')
     \<and> db_after (post_send with_credentials (no_faults(1 := Some ''Connection terminated''))
         None ''1'' db_two (0::nat)) = db_two"
    by (simp add: Let_def no_faults_none int4_in_samples)
  from a' b' c' e' show ?thesis by simp
qed

subsection \<open>The test mode flag\<close>

text \<open>
  Claim C6. The response of the send operation is to carry the flag \<open>testMode\<close>, true if and
  only if no sender credentials are configured, and the mail dispatcher is not to be called
  when credentials are absent. \<open>testMode\<close> is computed at line 158, behind the call that
  raises: for every configuration, request and database the response has status 404 or
  500 and an error body, so no response carries the flag. No delivery is ever attempted,
  with or without credentials.
\<close>

theorem send_never_reports:
  "fst (response (post_send ev faults origin newsletterId d w)) \<in> {404, 500}
   \<and> (\<exists>msg. snd (response (post_send ev faults origin newsletterId d w)) = ErrorBody msg)
   \<and> deliveries (post_send ev faults origin newsletterId d w) = []
   \<and> world_after (post_send ev faults origin newsletterId d w) = w"
proof -
  from post_send_cases [of ev faults origin newsletterId d w]
  obtain st msg where st: "st = 404 \<or> st = 500"
    and r: "post_send ev faults origin newsletterId d w =
       \<lparr>response = (st, ErrorBody msg), db_after = d, world_after = w, deliveries = []\<rparr>"
    by (elim exE conjE)
  from st show ?thesis unfolding r by auto
qed

subsection \<open>The stored count\<close>


subsection \<open>Line breaks in the message\<close>


subsection \<open>Creating clients\<close>

lemma post_clients_fault:
  "post_clients (Some msg) now eo n c d = ((500, ErrorBody msg), d)"
  by (simp add: post_clients_def insert_client_def res_status_json_def)

lemma post_clients_null:
  "post_clients None now None n c d =
     ((500, ErrorBody (not_null_msg ''email'' ''clients'')),
      d\<lparr>clients_id_seq := clients_id_seq d + 1\<rparr>)"
  by (simp add: post_clients_def insert_client_def res_status_json_def Let_def)

lemma post_clients_conflict:
  "e \<in> set (map email (clients d)) \<Longrightarrow>
   post_clients None now (Some e) n c d =
     ((409, ErrorBody (''Email ve'' @ c_acute @ '' postoji'')),
      d\<lparr>clients_id_seq := clients_id_seq d + 1\<rparr>)"
  by (simp add: post_clients_def insert_client_def res_status_json_def Let_def)

lemma post_clients_new:
  "e \<notin> set (map email (clients d)) \<Longrightarrow>
   post_clients None now (Some e) n c d =
     ((200, ClientAdded (''Klijent uspje'' @ s_caron @ ''no dodan'') (new_client d now e n c)),
      d\<lparr>clients_id_seq := clients_id_seq d + 1,
        clients := clients d @ [new_client d now e n c]\<rparr>)"
  by (simp add: post_clients_def insert_client_def res_status_json_def res_json_def Let_def
        new_client_def)

lemma post_clients_rows:
  "clients (snd (post_clients f now eo n c d)) =
     (case f of
        Some msg \<Rightarrow> clients d
      | None \<Rightarrow>
          (case eo of
             None \<Rightarrow> clients d
           | Some e \<Rightarrow>
               if e \<in> set (map email (clients d)) then clients d
               else clients d @ [new_client d now e n c]))"
proof (cases f)
  case (Some msg)
  then show ?thesis by (simp add: post_clients_fault)
next
  case None
  note f = this
  show ?thesis
  proof (cases eo)
    case None
    with f show ?thesis by (simp add: post_clients_null)
  next
    case (Some e)
    with f show ?thesis
      by (cases "e \<in> set (map email (clients d))")
         (simp_all add: post_clients_conflict post_clients_new)
  qed
qed

lemma new_client_email: "email (new_client d now e n c) = e"
  by (simp add: new_client_def)

lemma post_clients_emails:
  "map email (clients (snd (post_clients f now eo n c d))) =
     (case f of
        Some msg \<Rightarrow> map email (clients d)
      | None \<Rightarrow>
          (case eo of
             None \<Rightarrow> map email (clients d)
           | Some e \<Rightarrow>
               if e \<in> set (map email (clients d)) then map email (clients d)
               else map email (clients d) @ [e]))"
  unfolding post_clients_rows
  by (simp add: new_client_email split: option.splits)

lemma post_clients_unique:
  "emails_unique d \<Longrightarrow> emails_unique (snd (post_clients f now eo n c d))"
  unfolding emails_unique_def post_clients_emails
  by (simp split: option.splits)

lemma one_row:
  "distinct (map email cs) \<Longrightarrow> e \<in> set (map email cs) \<Longrightarrow>
   length (filter (\<lambda>c. email c = e) cs) = 1"
proof (induction cs)
  case Nil
  then show ?case by simp
next
  case (Cons a cs)
  show ?case
  proof (cases "email a = e")
    case True
    with Cons.prems have "e \<notin> set (map email cs)" by simp
    then have "filter (\<lambda>c. email c = e) cs = []"
      by (auto simp: filter_empty_conv)
    with True show ?thesis by simp
  next
    case False
    with Cons show ?thesis by simp
  qed
qed

lemma create_attempts_unique:
  "emails_unique d \<Longrightarrow> emails_unique (create_attempts attempts e d)"
proof (induction attempts arbitrary: d)
  case Nil
  then show ?case by simp
next
  case (Cons a attempts)
  obtain f now n c where a: "a = (f, now, n, c)" by (cases a)
  from Cons.prems have "emails_unique (snd (post_clients f now (Some e) n c d))"
    by (rule post_clients_unique)
  then have "emails_unique
      (create_attempts attempts e (snd (post_clients f now (Some e) n c d)))"
    by (rule Cons.IH)
  then show ?case unfolding a by simp
qed

lemma post_clients_keeps:
  "e \<in> set (map email (clients d)) \<Longrightarrow>
   e \<in> set (map email (clients (snd (post_clients f now eo n c d))))"
  unfolding post_clients_emails by (simp split: option.splits)

lemma create_attempts_keeps:
  "e \<in> set (map email (clients d)) \<Longrightarrow>
   e \<in> set (map email (clients (create_attempts attempts e d)))"
proof (induction attempts arbitrary: d)
  case Nil
  then show ?case by simp
next
  case (Cons a attempts)
  obtain f now n c where a: "a = (f, now, n, c)" by (cases a)
  from Cons.prems
  have "e \<in> set (map email (clients (snd (post_clients f now (Some e) n c d))))"
    by (rule post_clients_keeps)
  then have "e \<in> set (map email
      (clients (create_attempts attempts e (snd (post_clients f now (Some e) n c d)))))"
    by (rule Cons.IH)
  then show ?case unfolding a by simp
qed

lemma post_clients_stores:
  "e \<in> set (map email (clients (snd (post_clients None now (Some e) n c d))))"
  unfolding post_clients_emails by simp

lemma create_attempts_stores:
  "\<exists>a \<in> set attempts. fst a = None \<Longrightarrow>
   e \<in> set (map email (clients (create_attempts attempts e d)))"
proof (induction attempts arbitrary: d)
  case Nil
  then show ?case by simp
next
  case (Cons a attempts)
  obtain f now n c where a: "a = (f, now, n, c)" by (cases a)
  show ?case
  proof (cases f)
    case None
    have "e \<in> set (map email (clients (snd (post_clients None now (Some e) n c d))))"
      by (rule post_clients_stores)
    then have "e \<in> set (map email
        (clients (create_attempts attempts e (snd (post_clients None now (Some e) n c d)))))"
      by (rule create_attempts_keeps)
    then show ?thesis unfolding a None by simp
  next
    case (Some msg)
    with Cons.prems a have "\<exists>a \<in> set attempts. fst a = None" by simp
    then have "e \<in> set (map email
        (clients (create_attempts attempts e (snd (post_clients f now (Some e) n c d)))))"
      by (rule Cons.IH)
    then show ?thesis unfolding a by simp
  qed
qed

lemma at_most_one_row:
  "distinct (map email cs) \<Longrightarrow> length (filter (\<lambda>c. email c = e) cs) \<le> 1"
proof (cases "e \<in> set (map email cs)")
  case True
  assume "distinct (map email cs)"
  from one_row [OF this True] show ?thesis by simp
next
  case False
  then have "filter (\<lambda>c. email c = e) cs = []"
    by (auto simp: filter_empty_conv)
  then show ?thesis by simp
qed

subsection \<open>Unsubscribing, and what the other handlers leave alone\<close>

lemma post_unsubscribe_fault:
  "post_unsubscribe (Some msg) eo d = ((500, ErrorBody msg), d)"
  by (simp add: post_unsubscribe_def update_unsubscribe_def res_status_json_def)

lemma post_unsubscribe_ok:
  "post_unsubscribe None eo d =
     ((200, MessageOnly (''Pretplata uspje'' @ s_caron @ ''no otkazana'')),
      d\<lparr>clients :=
           map (\<lambda>c. if Some (email c) = eo then c\<lparr>subscribed := False\<rparr> else c) (clients d)\<rparr>)"
  by (simp add: post_unsubscribe_def update_unsubscribe_def res_json_def)

lemma unsubscribe_emails:
  "map email (map (\<lambda>c. if Some (email c) = eo then c\<lparr>subscribed := False\<rparr> else c) cs) =
   map email cs"
  by (induction cs) simp_all

lemma unsubscribe_twice:
  "map (\<lambda>c. if Some (email c) = eo then c\<lparr>subscribed := False\<rparr> else c)
     (map (\<lambda>c. if Some (email c) = eo then c\<lparr>subscribed := False\<rparr> else c) cs) =
   map (\<lambda>c. if Some (email c) = eo then c\<lparr>subscribed := False\<rparr> else c) cs"
  by (induction cs) simp_all

lemma unsubscribe_unknown:
  "\<forall>e. eo = Some e \<longrightarrow> e \<notin> set (map email cs) \<Longrightarrow>
   map (\<lambda>c. if Some (email c) = eo then c\<lparr>subscribed := False\<rparr> else c) cs = cs"
  by (induction cs) auto

lemma unsubscribe_rows:
  assumes "c \<in> set (map (\<lambda>c. if Some (email c) = eo then c\<lparr>subscribed := False\<rparr> else c) cs)"
    and "Some (email c) = eo"
  shows "\<not> subscribed c"
proof -
  from assms(1) obtain m where
    c: "c = (if Some (email m) = eo then m\<lparr>subscribed := False\<rparr> else m)"
    unfolding set_map image_iff by blast
  show ?thesis
  proof (cases "Some (email m) = eo")
    case True
    then show ?thesis unfolding c by simp
  next
    case False
    with assms(2) show ?thesis unfolding c by simp
  qed
qed

lemma post_unsubscribe_clients:
  "clients (snd (post_unsubscribe f eo d)) =
     (case f of
        Some msg \<Rightarrow> clients d
      | None \<Rightarrow>
          map (\<lambda>c. if Some (email c) = eo then c\<lparr>subscribed := False\<rparr> else c) (clients d))"
  by (cases f) (simp_all add: post_unsubscribe_fault post_unsubscribe_ok)

lemma post_unsubscribe_rest:
  "newsletters (snd (post_unsubscribe f eo d)) = newsletters d"
  "clients_id_seq (snd (post_unsubscribe f eo d)) = clients_id_seq d"
  "newsletters_id_seq (snd (post_unsubscribe f eo d)) = newsletters_id_seq d"
  by (cases f; simp add: post_unsubscribe_fault post_unsubscribe_ok)+

lemma post_unsubscribe_emails:
  "map email (clients (snd (post_unsubscribe f eo d))) = map email (clients d)"
proof (cases f)
  case None
  show ?thesis
    unfolding post_unsubscribe_clients None by (simp only: option.case unsubscribe_emails)
next
  case (Some msg)
  show ?thesis
    unfolding post_unsubscribe_clients Some by (simp only: option.case)
qed

lemma post_unsubscribe_unique:
  "emails_unique d \<Longrightarrow> emails_unique (snd (post_unsubscribe f eo d))"
  unfolding emails_unique_def post_unsubscribe_emails .

lemma post_newsletters_clients:
  "clients (snd (post_newsletters f now s ct d)) = clients d"
  by (cases f; cases s; cases ct)
     (simp_all add: post_newsletters_def insert_newsletter_def Let_def)

lemma post_newsletters_unique:
  "emails_unique d \<Longrightarrow> emails_unique (snd (post_newsletters f now s ct d))"
  unfolding emails_unique_def post_newsletters_clients .

lemma post_send_db:
  "db_after (post_send ev faults origin newsletterId d w) = d"
proof -
  from post_send_cases [of ev faults origin newsletterId d w]
  obtain st msg where
    r: "post_send ev faults origin newsletterId d w =
       \<lparr>response = (st, ErrorBody msg), db_after = d, world_after = w, deliveries = []\<rparr>"
    by (elim exE conjE)
  show ?thesis unfolding r by simp
qed

subsection \<open>Uniqueness of emails\<close>

text \<open>
  Claim C3. For every email \<open>e\<close>: a creation with an email that no row has answers 200 with
  the created row, which is added to the table; a creation with an email that a row has
  answers 409 and leaves the rows as they are; after any series of creation attempts with
  \<open>e\<close> of which at least one reaches the database there is exactly one row with email
  \<open>e\<close> (and never more than one); and every handler that writes (creating a client,
  creating a newsletter, unsubscribing, sending) keeps the emails of the clients table
  distinct.
\<close>

theorem client_email_unique:
  assumes inv: "emails_unique d"
  shows "(e \<notin> set (map email (clients d)) \<longrightarrow>
            (\<exists>row. fst (post_clients None now (Some e) n c d) =
                     (200, ClientAdded (''Klijent uspje'' @ s_caron @ ''no dodan'') row)
               \<and> email row = e \<and> name row = n \<and> company row = c \<and> subscribed row
               \<and> clients (snd (post_clients None now (Some e) n c d)) = clients d @ [row]))
       \<and> (e \<in> set (map email (clients d)) \<longrightarrow>
            fst (fst (post_clients None now (Some e) n c d)) = 409
            \<and> clients (snd (post_clients None now (Some e) n c d)) = clients d)
       \<and> ((\<exists>a \<in> set attempts. fst a = None) \<longrightarrow>
            length (rows_with_email e (create_attempts attempts e d)) = 1)
       \<and> length (rows_with_email e (create_attempts attempts e d)) \<le> 1
       \<and> emails_unique (snd (post_clients f now eo n c d))
       \<and> emails_unique (snd (post_newsletters f now s ct d))
       \<and> emails_unique (snd (post_unsubscribe f eo d))
       \<and> emails_unique (db_after (post_send ev faults origin newsletterId d w))"
proof -
  have new: "e \<notin> set (map email (clients d)) \<longrightarrow>
            (\<exists>row. fst (post_clients None now (Some e) n c d) =
                     (200, ClientAdded (''Klijent uspje'' @ s_caron @ ''no dodan'') row)
               \<and> email row = e \<and> name row = n \<and> company row = c \<and> subscribed row
               \<and> clients (snd (post_clients None now (Some e) n c d)) = clients d @ [row])"
  proof
    assume h: "e \<notin> set (map email (clients d))"
    show "\<exists>row. fst (post_clients None now (Some e) n c d) =
                     (200, ClientAdded (''Klijent uspje'' @ s_caron @ ''no dodan'') row)
               \<and> email row = e \<and> name row = n \<and> company row = c \<and> subscribed row
               \<and> clients (snd (post_clients None now (Some e) n c d)) = clients d @ [row]"
      by (rule exI [of _ "new_client d now e n c"])
         (simp add: post_clients_new [OF h] new_client_def)
  qed
  have old: "e \<in> set (map email (clients d)) \<longrightarrow>
            fst (fst (post_clients None now (Some e) n c d)) = 409
            \<and> clients (snd (post_clients None now (Some e) n c d)) = clients d"
    by (simp add: post_clients_conflict)
  have uniq: "distinct (map email (clients (create_attempts attempts e d)))"
    using create_attempts_unique [OF inv, of attempts e] by (simp add: emails_unique_def)
  have one: "(\<exists>a \<in> set attempts. fst a = None) \<longrightarrow>
            length (rows_with_email e (create_attempts attempts e d)) = 1"
  proof
    assume "\<exists>a \<in> set attempts. fst a = None"
    then have "e \<in> set (map email (clients (create_attempts attempts e d)))"
      by (rule create_attempts_stores)
    from one_row [OF uniq this]
    show "length (rows_with_email e (create_attempts attempts e d)) = 1"
      by (simp add: rows_with_email_def)
  qed
  have most: "length (rows_with_email e (create_attempts attempts e d)) \<le> 1"
    using at_most_one_row [OF uniq, of e] by (simp add: rows_with_email_def)
  have p1: "emails_unique (snd (post_clients f now eo n c d))"
    using inv by (rule post_clients_unique)
  have p2: "emails_unique (snd (post_newsletters f now s ct d))"
    using inv by (rule post_newsletters_unique)
  have p3: "emails_unique (snd (post_unsubscribe f eo d))"
    using inv by (rule post_unsubscribe_unique)
  have p4: "emails_unique (db_after (post_send ev faults origin newsletterId d w))"
    using inv by (simp only: post_send_db)
  show ?thesis
    by (rule conjI [OF new conjI [OF old conjI [OF one conjI [OF most
          conjI [OF p1 conjI [OF p2 conjI [OF p3 p4]]]]]]])
qed

theorem client_email_unique_witness:
  "emails_unique empty_db
   \<and> (\<exists>row. fst (post_clients None 1 (Some ''ann@x.org'') (Some ''Ann'') None empty_db) =
          (200, ClientAdded (''Klijent uspje'' @ s_caron @ ''no dodan'') row)
        \<and> email row = ''ann@x.org'')
   \<and> fst (fst (post_clients None 2 (Some ''ann@x.org'') None None
         (snd (post_clients None 1 (Some ''ann@x.org'') (Some ''Ann'') None empty_db)))) = 409
   \<and> length (rows_with_email ''ann@x.org''
        (create_attempts
           [(None, 1, Some ''Ann'', None), (None, 2, None, None),
            (Some ''Connection terminated'', 3, None, None), (None, 4, None, Some ''Acme'')]
           ''ann@x.org'' empty_db)) = 1"
proof -
  let ?d1 = "snd (post_clients None 1 (Some ''ann@x.org'') (Some ''Ann'') None empty_db)"
  let ?as = "[(None, 1, Some ''Ann'', None), (None, 2, None, None),
            (Some ''Connection terminated'', 3, None, None), (None, 4, None, Some ''Acme'')]
            :: (fault \<times> nat \<times> string option \<times> string option) list"
  have inv0: "emails_unique empty_db"
    by (simp add: emails_unique_def empty_db_def)
  have fresh: "''ann@x.org'' \<notin> set (map email (clients empty_db))"
    by (simp add: empty_db_def)
  have some: "\<exists>a \<in> set ?as. fst a = None"
    by simp
  note t = client_email_unique
    [OF inv0, where e = "''ann@x.org''" and now = 1 and n = "Some ''Ann''" and c = None
       and attempts = ?as and f = None and eo = "Some ''ann@x.org''"]
  from mp [OF t [THEN conjunct1] fresh]
  obtain row where row: "fst (post_clients None 1 (Some ''ann@x.org'') (Some ''Ann'') None empty_db) =
          (200, ClientAdded (''Klijent uspje'' @ s_caron @ ''no dodan'') row)"
    and em: "email row = ''ann@x.org''"
    and cl: "clients ?d1 = clients empty_db @ [row]"
    by (elim exE conjE)
  have one: "length (rows_with_email ''ann@x.org'' (create_attempts ?as ''ann@x.org'' empty_db)) = 1"
    by (rule mp [OF t [THEN conjunct2, THEN conjunct2, THEN conjunct1] some])
  have inv1: "emails_unique ?d1"
    by (rule t [THEN conjunct2, THEN conjunct2, THEN conjunct2, THEN conjunct2, THEN conjunct1])
  have known: "''ann@x.org'' \<in> set (map email (clients ?d1))"
    unfolding cl by (simp add: em)
  note u = client_email_unique
    [OF inv1, where e = "''ann@x.org''" and now = 2 and n = None and c = None]
  have dup: "fst (fst (post_clients None 2 (Some ''ann@x.org'') None None ?d1)) = 409"
    by (rule conjunct1 [OF mp [OF u [THEN conjunct2, THEN conjunct1] known]])
  from row em have ex: "\<exists>row. fst (post_clients None 1 (Some ''ann@x.org'') (Some ''Ann'') None empty_db) =
          (200, ClientAdded (''Klijent uspje'' @ s_caron @ ''no dodan'') row)
        \<and> email row = ''ann@x.org''"
    by (intro exI [of _ row] conjI)
  show ?thesis
    by (rule conjI [OF inv0 conjI [OF ex conjI [OF dup one]]])
qed

subsection \<open>Unsubscribing\<close>

text \<open>
  Claim C4. For every email \<open>e\<close>, unsubscribing answers 200; afterwards every row with
  email \<open>e\<close> has \<open>subscribed = false\<close> and the table has the same emails in the same order;
  unsubscribing a second time gives the same response and the same database as the first;
  for an email that no row has, and for a request without an email, the database is
  unchanged.
\<close>

theorem unsubscribe_idempotent:
  "let r = post_unsubscribe None (Some e) d in
     fst r = (200, MessageOnly (''Pretplata uspje'' @ s_caron @ ''no otkazana''))
   \<and> (\<forall>c \<in> set (clients (snd r)). email c = e \<longrightarrow> \<not> subscribed c)
   \<and> map email (clients (snd r)) = map email (clients d)
   \<and> post_unsubscribe None (Some e) (snd r) = r
   \<and> (e \<notin> set (map email (clients d)) \<longrightarrow> snd r = d)
   \<and> post_unsubscribe None None d = (fst r, d)"
proof -
  let ?g = "\<lambda>c. if Some (email c) = Some e then c\<lparr>subscribed := False\<rparr> else c"
  let ?r = "post_unsubscribe None (Some e) d"
  have r: "?r = ((200, MessageOnly (''Pretplata uspje'' @ s_caron @ ''no otkazana'')),
      d\<lparr>clients := map ?g (clients d)\<rparr>)"
    by (rule post_unsubscribe_ok)
  have a: "fst ?r = (200, MessageOnly (''Pretplata uspje'' @ s_caron @ ''no otkazana''))"
    unfolding r by simp
  have cl: "clients (snd ?r) = map ?g (clients d)"
    unfolding r by simp
  have b: "\<forall>c \<in> set (clients (snd ?r)). email c = e \<longrightarrow> \<not> subscribed c"
    unfolding cl using unsubscribe_rows [of _ "Some e" "clients d"] by blast
  have c: "map email (clients (snd ?r)) = map email (clients d)"
    by (rule post_unsubscribe_emails)
  have i: "post_unsubscribe None (Some e) (snd ?r) = ?r"
    unfolding post_unsubscribe_ok [of "Some e" "snd ?r"] cl unsubscribe_twice
    unfolding r by simp
  have u: "e \<notin> set (map email (clients d)) \<longrightarrow> snd ?r = d"
  proof
    assume "e \<notin> set (map email (clients d))"
    then have "map ?g (clients d) = clients d"
      by (intro unsubscribe_unknown) simp
    then show "snd ?r = d" unfolding r by simp
  qed
  have "map (\<lambda>c. if Some (email c) = None then c\<lparr>subscribed := False\<rparr> else c) (clients d) =
      clients d"
    by (intro unsubscribe_unknown) simp
  then have x: "post_unsubscribe None None d = (fst ?r, d)"
    unfolding a post_unsubscribe_ok [of None d] by simp
  show ?thesis
    unfolding Let_def
    by (rule conjI [OF a conjI [OF b conjI [OF c conjI [OF i conjI [OF u x]]]]])
qed

theorem unsubscribe_idempotent_witness:
  "''a@x.org'' \<in> set (map email (clients db_two))
   \<and> map subscribed (clients (snd (post_unsubscribe None (Some ''a@x.org'') db_two))) =
       [False, True, False]
   \<and> post_unsubscribe None (Some ''a@x.org'')
        (snd (post_unsubscribe None (Some ''a@x.org'') db_two)) =
       post_unsubscribe None (Some ''a@x.org'') db_two
   \<and> ''zz@x.org'' \<notin> set (map email (clients db_two))
   \<and> snd (post_unsubscribe None (Some ''zz@x.org'') db_two) = db_two"
proof -
  have known: "''a@x.org'' \<in> set (map email (clients db_two))"
    and unknown: "''zz@x.org'' \<notin> set (map email (clients db_two))"
    by (simp_all add: db_two_def sample_client_def)
  note t = unsubscribe_idempotent [of "''a@x.org''" db_two, unfolded Let_def]
  note u = unsubscribe_idempotent [of "''zz@x.org''" db_two, unfolded Let_def]
  have idem: "post_unsubscribe None (Some ''a@x.org'')
        (snd (post_unsubscribe None (Some ''a@x.org'') db_two)) =
       post_unsubscribe None (Some ''a@x.org'') db_two"
    by (rule t [THEN conjunct2, THEN conjunct2, THEN conjunct2, THEN conjunct1])
  have same: "snd (post_unsubscribe None (Some ''zz@x.org'') db_two) = db_two"
    by (rule mp [OF u [THEN conjunct2, THEN conjunct2, THEN conjunct2, THEN conjunct2,
          THEN conjunct1] unknown])
  have flags: "map subscribed (clients (snd (post_unsubscribe None (Some ''a@x.org'') db_two))) =
       [False, True, False]"
    by (simp add: post_unsubscribe_ok db_two_def sample_client_def)
  show ?thesis
    by (rule conjI [OF known conjI [OF flags conjI [OF idem conjI [OF unknown same]]]])
qed

subsection \<open>A request without an email\<close>

text \<open>
  Claim C9. Creating a client performs no validation: for a request without an email the
  answer is not a 400 but status 500, carrying the message of the NOT NULL violation as
  the database raised it (or, when the query does not reach the database, the message of
  that error), and no client row is created.
\<close>

theorem missing_email_is_500:
  "fst (post_clients None now None n c d) = (500, ErrorBody (not_null_msg ''email'' ''clients''))
   \<and> fst (fst (post_clients f now None n c d)) = 500
   \<and> clients (snd (post_clients f now None n c d)) = clients d"
proof -
  have a: "fst (post_clients None now None n c d) =
      (500, ErrorBody (not_null_msg ''email'' ''clients''))"
    by (simp add: post_clients_null)
  have b: "fst (fst (post_clients f now None n c d)) = 500"
    by (cases f) (simp_all add: post_clients_null post_clients_fault)
  have c: "clients (snd (post_clients f now None n c d)) = clients d"
    unfolding post_clients_rows by (simp split: option.splits)
  from a b c show ?thesis by (intro conjI)
qed

subsection \<open>What unsubscribing leaves alone\<close>

text \<open>
  Claim C10. Unsubscribing changes nothing but the \<open>subscribed\<close> field of the rows whose
  email is the given one: the newsletters and both sequences are unchanged, the clients
  table keeps its length, every row keeps its id, email, name, company and creation time,
  a row with another email is unchanged, and a row is either unchanged or the same row with
  \<open>subscribed = false\<close>.
\<close>

theorem unsubscribe_frame:
  "let d' = snd (post_unsubscribe f eo d) in
     newsletters d' = newsletters d
   \<and> clients_id_seq d' = clients_id_seq d
   \<and> newsletters_id_seq d' = newsletters_id_seq d
   \<and> length (clients d') = length (clients d)
   \<and> (\<forall>i < length (clients d).
        c_id (clients d' ! i) = c_id (clients d ! i)
        \<and> email (clients d' ! i) = email (clients d ! i)
        \<and> name (clients d' ! i) = name (clients d ! i)
        \<and> company (clients d' ! i) = company (clients d ! i)
        \<and> created_at (clients d' ! i) = created_at (clients d ! i)
        \<and> (Some (email (clients d ! i)) \<noteq> eo \<longrightarrow> clients d' ! i = clients d ! i)
        \<and> (clients d' ! i = clients d ! i
             \<or> clients d' ! i = (clients d ! i)\<lparr>subscribed := False\<rparr>))"
proof -
  let ?d' = "snd (post_unsubscribe f eo d)"
  let ?g = "\<lambda>c. if Some (email c) = eo then c\<lparr>subscribed := False\<rparr> else c"
  have len: "length (clients ?d') = length (clients d)"
    using arg_cong [OF post_unsubscribe_emails [of f eo d], of length] by simp
  have row: "clients ?d' ! i = clients d ! i \<or> (f = None \<and> clients ?d' ! i = ?g (clients d ! i))"
    if "i < length (clients d)" for i
    using that unfolding post_unsubscribe_clients by (cases f) simp_all
  have rows: "\<forall>i < length (clients d).
        c_id (clients ?d' ! i) = c_id (clients d ! i)
        \<and> email (clients ?d' ! i) = email (clients d ! i)
        \<and> name (clients ?d' ! i) = name (clients d ! i)
        \<and> company (clients ?d' ! i) = company (clients d ! i)
        \<and> created_at (clients ?d' ! i) = created_at (clients d ! i)
        \<and> (Some (email (clients d ! i)) \<noteq> eo \<longrightarrow> clients ?d' ! i = clients d ! i)
        \<and> (clients ?d' ! i = clients d ! i
             \<or> clients ?d' ! i = (clients d ! i)\<lparr>subscribed := False\<rparr>)"
  proof (intro allI impI)
    fix i
    assume "i < length (clients d)"
    from row [OF this] show "c_id (clients ?d' ! i) = c_id (clients d ! i)
        \<and> email (clients ?d' ! i) = email (clients d ! i)
        \<and> name (clients ?d' ! i) = name (clients d ! i)
        \<and> company (clients ?d' ! i) = company (clients d ! i)
        \<and> created_at (clients ?d' ! i) = created_at (clients d ! i)
        \<and> (Some (email (clients d ! i)) \<noteq> eo \<longrightarrow> clients ?d' ! i = clients d ! i)
        \<and> (clients ?d' ! i = clients d ! i
             \<or> clients ?d' ! i = (clients d ! i)\<lparr>subscribed := False\<rparr>)"
    proof
      assume "clients ?d' ! i = clients d ! i"
      then show ?thesis by simp
    next
      assume "f = None \<and> clients ?d' ! i = ?g (clients d ! i)"
      then have eq: "clients ?d' ! i = ?g (clients d ! i)" by (rule conjunct2)
      show ?thesis
        unfolding eq by (cases "Some (email (clients d ! i)) = eo") simp_all
    qed
  qed
  show ?thesis
    unfolding Let_def
    by (rule conjI [OF post_unsubscribe_rest(1) conjI [OF post_unsubscribe_rest(2)
          conjI [OF post_unsubscribe_rest(3) conjI [OF len rows]]]])
qed

theorem unsubscribe_frame_witness:
  "(1::nat) < length (clients db_two)
   \<and> Some (email (clients db_two ! 1)) \<noteq> Some ''a@x.org''
   \<and> clients (snd (post_unsubscribe None (Some ''a@x.org'') db_two)) ! 1 = clients db_two ! 1
   \<and> email (clients (snd (post_unsubscribe None (Some ''a@x.org'') db_two)) ! 1) = ''b@x.org''
   \<and> newsletters (snd (post_unsubscribe None (Some ''a@x.org'') db_two)) = newsletters db_two"
proof -
  have len: "(1::nat) < length (clients db_two)"
    and other: "Some (email (clients db_two ! 1)) \<noteq> Some ''a@x.org''"
    and b: "email (clients db_two ! 1) = ''b@x.org''"
    by (simp_all add: db_two_def sample_client_def)
  note t = unsubscribe_frame [of None "Some ''a@x.org''" db_two, unfolded Let_def]
  have nl: "newsletters (snd (post_unsubscribe None (Some ''a@x.org'') db_two)) = newsletters db_two"
    by (rule t [THEN conjunct1])
  note rows = t [THEN conjunct2, THEN conjunct2, THEN conjunct2, THEN conjunct2]
  note row = mp [OF spec [OF rows, of 1] len]
  have em: "email (clients (snd (post_unsubscribe None (Some ''a@x.org'') db_two)) ! 1) = ''b@x.org''"
    using row [THEN conjunct2, THEN conjunct1] b by simp
  have same: "clients (snd (post_unsubscribe None (Some ''a@x.org'') db_two)) ! 1 = clients db_two ! 1"
    by (rule mp [OF row [THEN conjunct2, THEN conjunct2, THEN conjunct2, THEN conjunct2,
          THEN conjunct2, THEN conjunct1] other])
  show ?thesis
    by (rule conjI [OF len conjI [OF other conjI [OF same conjI [OF em nl]]]])
qed

end
